theory Spec2Isabelle
  imports Complex_Main "HOL-Library.AList"
begin

section \<open>Values\<close>

text \<open>
  A market is a Python dict decoded from JSON. JSON values are modelled as a datatype;
  a dict is an association list in insertion order, read with \<open>map_of\<close> and written
  with \<open>AList.update\<close> (which overwrites in place or appends, as dict assignment does).
  Python's \<open>None\<close> is \<open>JNull\<close>.

  Numbers are modelled by their exact value: a Python int is an \<open>int\<close>, a finite float
  is the rational it denotes. The rounding of binary64 arithmetic and its overflow are
  outside the model, and so are the floats that are not finite, which Python's decoder
  delivers for the literals \<open>NaN\<close> and \<open>Infinity\<close> (which are not JSON) and for
  a number too large for binary64. The only infinite float the program itself makes is
  \<open>float("inf")\<close>, the top element \<open>PInf\<close> of \<open>pyfloat\<close>.
\<close>

datatype json =
    JNull
  | JBool bool
  | JInt int
  | JFloat rat
  | JStr string
  | JArr "json list"
  | JObj "(string \<times> json) list"

type_synonym market = "(string \<times> json) list"

datatype pyfloat = Fin rat | PInf

instantiation pyfloat :: linorder
begin

fun less_eq_pyfloat :: "pyfloat \<Rightarrow> pyfloat \<Rightarrow> bool" where
  "less_eq_pyfloat (Fin a) (Fin b) = (a \<le> b)"
| "less_eq_pyfloat (Fin a) PInf = True"
| "less_eq_pyfloat PInf (Fin b) = False"
| "less_eq_pyfloat PInf PInf = True"

fun less_pyfloat :: "pyfloat \<Rightarrow> pyfloat \<Rightarrow> bool" where
  "less_pyfloat (Fin a) (Fin b) = (a < b)"
| "less_pyfloat (Fin a) PInf = True"
| "less_pyfloat PInf (Fin b) = False"
| "less_pyfloat PInf PInf = False"

instance
proof
  fix x y z :: pyfloat
  show "(x < y) = (x \<le> y \<and> \<not> y \<le> x)"
    by (cases x; cases y) auto
  show "x \<le> x"
    by (cases x) auto
  show "x \<le> y \<Longrightarrow> y \<le> z \<Longrightarrow> x \<le> z"
    by (cases x; cases y; cases z) auto
  show "x \<le> y \<Longrightarrow> y \<le> x \<Longrightarrow> x = y"
    by (cases x; cases y) auto
  show "x \<le> y \<or> y \<le> x"
    by (cases x; cases y) auto
qed

end

datatype error =
    HTTPError nat string
  | ConnectionError
  | Timeout
  | JSONDecodeError
  | TypeError
  | KeyError string
  | ValueError
  | AttributeError

text \<open>\<open>d.get(k)\<close> and \<open>d.get(k, default)\<close>.\<close>

definition dict_get :: "market \<Rightarrow> string \<Rightarrow> json" where
  "dict_get d k = (case map_of d k of None \<Rightarrow> JNull | Some v \<Rightarrow> v)"

definition dict_get_default :: "market \<Rightarrow> string \<Rightarrow> json \<Rightarrow> json" where
  "dict_get_default d k dflt = (case map_of d k of None \<Rightarrow> dflt | Some v \<Rightarrow> v)"

text \<open>Truthiness, as tested by \<open>if x\<close> and \<open>not x\<close>.\<close>

fun truthy :: "json \<Rightarrow> bool" where
  "truthy JNull = False"
| "truthy (JBool b) = b"
| "truthy (JInt n) = (n \<noteq> 0)"
| "truthy (JFloat r) = (r \<noteq> 0)"
| "truthy (JStr s) = (s \<noteq> [])"
| "truthy (JArr xs) = (xs \<noteq> [])"
| "truthy (JObj kvs) = (kvs \<noteq> [])"

text \<open>
  \<open>isinstance(x, (int, float))\<close>, with the value of the number when it holds.
  \<open>bool\<close> is a subclass of \<open>int\<close>, so \<open>True\<close> and \<open>False\<close> pass as 1 and 0.
\<close>

fun num_val :: "json \<Rightarrow> rat option" where
  "num_val (JBool b) = Some (if b then 1 else 0)"
| "num_val (JInt n) = Some (of_int n)"
| "num_val (JFloat r) = Some r"
| "num_val _ = None"

definition is_number :: "json \<Rightarrow> bool" where
  "is_number v = (num_val v \<noteq> None)"

section \<open>pool_builder.py\<close>

definition MAX_SPREAD_CENTS :: rat where
  "MAX_SPREAD_CENTS = 30"

definition MIN_LIQUIDITY_CENTS :: rat where
  "MIN_LIQUIDITY_CENTS = 1000"

definition TOP_N_LIQUID_PER_EVENT :: nat where
  "TOP_N_LIQUID_PER_EVENT = 50"

definition MIN_TIME_BUFFER_MINUTES :: rat where
  "MIN_TIME_BUFFER_MINUTES = 5"

definition SERIES :: "string list" where
  "SERIES = [''KXETHD'', ''KXETH'', ''KXBTCD'', ''KXBTC'', ''KXXRPD'', ''KXXRP'']"

subsection \<open>parse_iso_utc\<close>

text \<open>
  \<open>datetime.fromisoformat(s).timestamp()\<close> belongs to the Python library; it is a
  parameter \<open>iso_ts\<close> of the model, \<open>None\<close> where either call raises. Every exception
  in the body is caught (also the \<open>AttributeError\<close> of \<open>s.endswith\<close> when the value
  is not a string), and the result is then \<open>float("inf")\<close>.
\<close>

definition replace_Z :: "string \<Rightarrow> string" where
  "replace_Z s = concat (map (\<lambda>c. if c = CHR ''Z'' then ''+00:00'' else [c]) s)"

definition parse_iso_utc :: "(string \<Rightarrow> rat option) \<Rightarrow> json \<Rightarrow> pyfloat" where
  "parse_iso_utc iso_ts v =
     (case v of
        JStr s \<Rightarrow>
          (case (if s \<noteq> [] \<and> last s = CHR ''Z'' then iso_ts (replace_Z s) else iso_ts s) of
             Some t \<Rightarrow> Fin t
           | None \<Rightarrow> PInf)
      | _ \<Rightarrow> PInf)"

subsection \<open>get_open_markets_for_series\<close>

text \<open>
  One request to the listing endpoint either raises (\<open>requests.get\<close>,
  \<open>raise_for_status\<close> or \<open>r.json()\<close>) or yields a page: the value of
  \<open>data.get("markets", [])\<close> and of \<open>data.get("cursor")\<close>. The server is a
  function of the series ticker, the limit and the cursor parameter (absent on the
  first request). The loop runs until a page has no cursor, so it need not end.
\<close>

datatype http_response = Raises error | Page "market list" json

type_synonym listing_server = "string \<Rightarrow> nat \<Rightarrow> json option \<Rightarrow> http_response"

partial_function (option) fetch_pages ::
  "listing_server \<Rightarrow> string \<Rightarrow> nat \<Rightarrow> market list \<Rightarrow> json \<Rightarrow> (error + market list) option"
where
  "fetch_pages srv series_ticker limit markets cursor =
     (case srv series_ticker limit (if truthy cursor then Some cursor else None) of
        Raises e \<Rightarrow> Some (Inl e)
      | Page ms c \<Rightarrow>
          if \<not> truthy c then Some (Inr (markets @ ms))
          else fetch_pages srv series_ticker limit (markets @ ms) c)"

definition get_open_markets_for_series ::
  "listing_server \<Rightarrow> string \<Rightarrow> (error + market list) option" where
  "get_open_markets_for_series srv series_ticker =
     fetch_pages srv series_ticker 1000 [] JNull"

subsection \<open>group_by_event\<close>

text \<open>
  The result dict is keyed by the value of \<open>event_ticker\<close>, whatever its type. Keys
  are compared as Python compares hashable JSON values: numbers (and booleans) by
  value, anything else structurally. A list or dict as key raises \<open>TypeError\<close>.
\<close>

type_synonym by_event = "(json \<times> market list) list"

definition py_eq :: "json \<Rightarrow> json \<Rightarrow> bool" where
  "py_eq a b =
     (case (num_val a, num_val b) of
        (Some x, Some y) \<Rightarrow> x = y
      | (None, None) \<Rightarrow> a = b
      | _ \<Rightarrow> False)"

fun hashable :: "json \<Rightarrow> bool" where
  "hashable (JArr xs) = False"
| "hashable (JObj kvs) = False"
| "hashable _ = True"

text \<open>\<open>by_evt.setdefault(evt, []).append(m)\<close>\<close>

fun setdefault_append :: "json \<Rightarrow> market \<Rightarrow> by_event \<Rightarrow> by_event" where
  "setdefault_append evt m [] = [(evt, [m])]"
| "setdefault_append evt m ((k, g) # rest) =
     (if py_eq k evt then (k, g @ [m]) # rest
      else (k, g) # setdefault_append evt m rest)"

fun group_by_event_loop :: "market list \<Rightarrow> by_event \<Rightarrow> error + by_event" where
  "group_by_event_loop [] by_evt = Inr by_evt"
| "group_by_event_loop (m # ms) by_evt =
     (let evt = dict_get m ''event_ticker'' in
      if \<not> truthy evt then group_by_event_loop ms by_evt
      else if \<not> hashable evt then Inl TypeError
      else group_by_event_loop ms (setdefault_append evt m by_evt))"

definition group_by_event :: "market list \<Rightarrow> error + by_event" where
  "group_by_event markets = group_by_event_loop markets []"

subsection \<open>pick_soonest_future_event\<close>

text \<open>\<open>min((parse_iso_utc(g.get("close_time", "")) for g in grp), default=inf)\<close>\<close>

definition group_close_time :: "(string \<Rightarrow> rat option) \<Rightarrow> market list \<Rightarrow> pyfloat" where
  "group_close_time iso_ts grp =
     fold min (map (\<lambda>g. parse_iso_utc iso_ts (dict_get_default g ''close_time'' (JStr []))) grp) PInf"

text \<open>
  The three loops of the source have the same body and differ in the first conjunct of
  the test only (\<open>ct >= min_close_ts\<close>, \<open>ct >= now_ts\<close>, none); \<open>admit\<close> is
  that conjunct. The loop carries \<open>(best_evt, best_close)\<close>.
\<close>

fun event_pass ::
  "(string \<Rightarrow> rat option) \<Rightarrow> (pyfloat \<Rightarrow> bool) \<Rightarrow> by_event \<Rightarrow> json \<times> pyfloat \<Rightarrow> json \<times> pyfloat"
where
  "event_pass iso_ts admit [] best = best"
| "event_pass iso_ts admit ((evt, grp) # rest) (best_evt, best_close) =
     (let ct = group_close_time iso_ts grp in
      if admit ct \<and> ct < best_close then event_pass iso_ts admit rest (evt, ct)
      else event_pass iso_ts admit rest (best_evt, best_close))"

text \<open>\<open>by_event.get(best_evt, [])\<close>\<close>

fun by_event_get :: "by_event \<Rightarrow> json \<Rightarrow> market list" where
  "by_event_get [] evt = []"
| "by_event_get ((k, g) # rest) evt = (if py_eq k evt then g else by_event_get rest evt)"

definition pick_soonest_future_event ::
  "(string \<Rightarrow> rat option) \<Rightarrow> rat \<Rightarrow> by_event \<Rightarrow> json \<times> market list" where
  "pick_soonest_future_event iso_ts now_ts by_event =
     (if by_event = [] then (JNull, [])
      else
        let min_close_ts = now_ts + MIN_TIME_BUFFER_MINUTES * 60;
            pass1 = event_pass iso_ts (\<lambda>ct. Fin min_close_ts \<le> ct) by_event (JNull, PInf);
            pass2 = (if fst pass1 = JNull
                     then event_pass iso_ts (\<lambda>ct. Fin now_ts \<le> ct) by_event pass1 else pass1);
            pass3 = (if fst pass2 = JNull
                     then event_pass iso_ts (\<lambda>ct. True) by_event pass2 else pass2)
        in (fst pass3, by_event_get by_event (fst pass3)))"

subsection \<open>yes_spread, no_spread\<close>

definition yes_spread :: "market \<Rightarrow> pyfloat" where
  "yes_spread m =
     (let yb = dict_get m ''yes_bid''; ya = dict_get m ''yes_ask'' in
      case (num_val yb, num_val ya) of
        (Some b, Some a) \<Rightarrow>
          if (b = 0 \<and> a = 0) \<or> (b = 100 \<and> a = 100) then PInf else Fin (a - b)
      | _ \<Rightarrow> PInf)"

definition no_spread :: "market \<Rightarrow> pyfloat" where
  "no_spread m =
     (let nb = dict_get m ''no_bid''; na = dict_get m ''no_ask'' in
      case (num_val nb, num_val na) of
        (Some b, Some a) \<Rightarrow>
          if (b = 0 \<and> a = 0) \<or> (b = 100 \<and> a = 100) then PInf else Fin (a - b)
      | _ \<Rightarrow> PInf)"

subsection \<open>build_pool\<close>

text \<open>
  The test of the filter loop. \<open>and\<close> evaluates left to right and stops at the first
  false operand, so \<open>liq >= MIN_LIQUIDITY_CENTS\<close> is evaluated only when both spreads
  pass; it raises \<open>TypeError\<close> when \<open>liq\<close> is not a number.
\<close>

definition passes_filters :: "market \<Rightarrow> error + bool" where
  "passes_filters m =
     (let ys = yes_spread m; ns = no_spread m;
          liq = dict_get_default m ''liquidity'' (JInt 0) in
      if ys < Fin MAX_SPREAD_CENTS \<and> ns < Fin MAX_SPREAD_CENTS then
        (case num_val liq of
           None \<Rightarrow> Inl TypeError
         | Some l \<Rightarrow> Inr (l \<ge> MIN_LIQUIDITY_CENTS))
      else Inr False)"

text \<open>
  The copy with its three annotations. A spread is stored only when it is below 30,
  hence finite; \<open>PInf\<close> has no JSON value in this model and is never stored.
\<close>

fun spread_json :: "pyfloat \<Rightarrow> json" where
  "spread_json (Fin r) = JFloat r"
| "spread_json PInf = JNull"

definition annotate :: "json \<Rightarrow> market \<Rightarrow> market" where
  "annotate evt_ticker m =
     AList.update ''_event_ticker'' evt_ticker
       (AList.update ''_no_spread'' (spread_json (no_spread m))
         (AList.update ''_yes_spread'' (spread_json (yes_spread m)) m))"

fun filter_ladder :: "json \<Rightarrow> market list \<Rightarrow> market list \<Rightarrow> error + market list" where
  "filter_ladder evt_ticker [] filtered = Inr filtered"
| "filter_ladder evt_ticker (m # ladder) filtered =
     (case passes_filters m of
        Inl e \<Rightarrow> Inl e
      | Inr keep \<Rightarrow>
          if keep then filter_ladder evt_ticker ladder (filtered @ [annotate evt_ticker m])
          else filter_ladder evt_ticker ladder filtered)"

text \<open>
  The sort key \<open>x.get("liquidity", 0)\<close>. Every survivor passed
  \<open>liq >= MIN_LIQUIDITY_CENTS\<close>, so its liquidity is a number and the sort cannot
  raise. \<open>sort(reverse=True)\<close> is stable, as \<open>sort_key\<close> on the negated key is.
\<close>

definition liquidity_key :: "market \<Rightarrow> rat" where
  "liquidity_key x = (case num_val (dict_get_default x ''liquidity'' (JInt 0)) of
                        Some l \<Rightarrow> l | None \<Rightarrow> 0)"

definition top_liquid :: "market list \<Rightarrow> market list" where
  "top_liquid filtered =
     (let sorted_desc = sort_key (\<lambda>x. - liquidity_key x) filtered in
      if TOP_N_LIQUID_PER_EVENT \<noteq> 0 then take TOP_N_LIQUID_PER_EVENT sorted_desc
      else sorted_desc)"

text \<open>
  The summary printed for a series evaluates \<open>m['ticker']\<close> and
  \<open>float(m.get('liquidity_dollars','0') or '0')\<close> for the first eight survivors;
  both can raise, and nothing catches it. Whether a string is a float literal is
  the library's matter: the parameter \<open>float_ok\<close>.
\<close>

definition float_or_zero_error :: "(string \<Rightarrow> bool) \<Rightarrow> json \<Rightarrow> error option" where
  "float_or_zero_error float_ok v =
     (if \<not> truthy v then None
      else case v of
        JStr s \<Rightarrow> if float_ok s then None else Some ValueError
      | JArr xs \<Rightarrow> Some TypeError
      | JObj kvs \<Rightarrow> Some TypeError
      | _ \<Rightarrow> None)"

fun summary_error :: "(string \<Rightarrow> bool) \<Rightarrow> market list \<Rightarrow> error option" where
  "summary_error float_ok [] = None"
| "summary_error float_ok (m # ms) =
     (case map_of m ''ticker'' of
        None \<Rightarrow> Some (KeyError ''ticker'')
      | Some t \<Rightarrow>
          (case float_or_zero_error float_ok (dict_get_default m ''liquidity_dollars'' (JStr ''0'')) of
             Some e \<Rightarrow> Some e
           | None \<Rightarrow> summary_error float_ok ms))"

text \<open>
  What \<open>build_pool\<close> reads from outside: the listing server, the clock (read once
  for each series, in \<open>pick_soonest_future_event\<close>), and the two library parsers.
\<close>

record pool_env =
  listing :: listing_server
  time_time :: "string \<Rightarrow> rat"
  fromisoformat_timestamp :: "string \<Rightarrow> rat option"
  float_ok :: "string \<Rightarrow> bool"

text \<open>
  The loop over the series, carrying \<open>pool\<close>. There is no \<open>try\<close> in
  \<open>build_pool\<close>: an exception in the body leaves the function, and the pool built
  so far is lost. \<open>None\<close> is a listing that never ends.
\<close>

fun build_pool_loop :: "pool_env \<Rightarrow> string list \<Rightarrow> market list \<Rightarrow> (error + market list) option" where
  "build_pool_loop env [] pool = Some (Inr pool)"
| "build_pool_loop env (series # rest) pool =
     (case get_open_markets_for_series (listing env) series of
        None \<Rightarrow> None
      | Some (Inl e) \<Rightarrow> Some (Inl e)
      | Some (Inr mkts) \<Rightarrow>
          (case group_by_event mkts of
             Inl e \<Rightarrow> Some (Inl e)
           | Inr by_evt \<Rightarrow>
               (case pick_soonest_future_event (fromisoformat_timestamp env) (time_time env series) by_evt of
                  (evt_ticker, ladder) \<Rightarrow>
                    if \<not> truthy evt_ticker \<or> ladder = [] then build_pool_loop env rest pool
                    else
                      (case filter_ladder evt_ticker ladder [] of
                         Inl e \<Rightarrow> Some (Inl e)
                       | Inr filtered \<Rightarrow>
                           if filtered = [] then build_pool_loop env rest pool
                           else
                             (case summary_error (float_ok env) (take 8 (top_liquid filtered)) of
                                Some e \<Rightarrow> Some (Inl e)
                              | None \<Rightarrow> build_pool_loop env rest (pool @ top_liquid filtered))))))"

definition build_pool :: "pool_env \<Rightarrow> (error + market list) option" where
  "build_pool env = build_pool_loop env SERIES []"

section \<open>buy.py\<close>

subsection \<open>sign_request\<close>

text \<open>
  The \<open>cryptography\<close> library is outside the repository: loading a PEM key and the
  RSA signature are the parameters \<open>load_pem_private_key\<close> (\<open>None\<close> where it
  raises) and \<open>rsa_sign\<close> (key, message, padding, digest; the salt PSS draws is the
  library's). What the program decides is what it passes to them. A Python \<open>str\<close> is
  modelled by its UTF-8 bytes, so \<open>encode\<close> and \<open>decode\<close> are the identity.
\<close>

datatype hash_alg = SHA1 | SHA256 | SHA384 | SHA512

datatype salt_length = MAX_LENGTH | DIGEST_LENGTH | AUTO | SaltBytes nat

datatype mgf = MGF1 hash_alg

datatype padding = PSS mgf salt_length | PKCS1v15

record 'k crypto =
  load_pem_private_key :: "string \<Rightarrow> 'k option"
  rsa_sign :: "'k \<Rightarrow> string \<Rightarrow> padding \<Rightarrow> hash_alg \<Rightarrow> string"

text \<open>\<open>base64.b64encode\<close>, the standard alphabet with padding.\<close>

definition b64_alphabet :: string where
  "b64_alphabet = ''ABCDEFGHIJKLMNOPQRSTUVWXYZabcdefghijklmnopqrstuvwxyz0123456789+/''"

definition b64_char :: "nat \<Rightarrow> char" where
  "b64_char n = b64_alphabet ! (n mod 64)"

fun b64encode :: "string \<Rightarrow> string" where
  "b64encode [] = []"
| "b64encode [a] =
     (let n = of_char a * 65536 in
      [b64_char (n div 262144), b64_char (n div 4096), CHR ''='', CHR ''=''])"
| "b64encode [a, b] =
     (let n = of_char a * 65536 + of_char b * 256 in
      [b64_char (n div 262144), b64_char (n div 4096), b64_char (n div 64), CHR ''=''])"
| "b64encode (a # b # c # rest) =
     (let n = of_char a * 65536 + of_char b * 256 + of_char c in
      [b64_char (n div 262144), b64_char (n div 4096), b64_char (n div 64), b64_char n]
        @ b64encode rest)"

text \<open>\<open>path.split('?')[0]\<close>: the part before the first question mark.\<close>

definition strip_query :: "string \<Rightarrow> string" where
  "strip_query path = takeWhile (\<lambda>c. c \<noteq> CHR ''?'') path"

definition sign_request ::
  "'k crypto \<Rightarrow> string \<Rightarrow> string \<Rightarrow> string \<Rightarrow> string \<Rightarrow> string \<Rightarrow> string \<Rightarrow> error + string" where
  "sign_request lib method path body timestamp_ms key_id private_key_pem =
     (case load_pem_private_key lib private_key_pem of
        None \<Rightarrow> Inl ValueError
      | Some private_key \<Rightarrow>
          let path_without_query = strip_query path;
              message_string = timestamp_ms @ method @ path_without_query;
              signature = rsa_sign lib private_key message_string
                            (PSS (MGF1 SHA256) DIGEST_LENGTH) SHA256
          in Inr (b64encode signature))"

subsection \<open>_choose_side\<close>

text \<open>
  The random generator is the sequence of its draws; \<open>random.choice\<close> takes the next
  draw as an index. It is called on non-empty sequences only.
\<close>

type_synonym rng = "nat \<Rightarrow> nat"

definition random_choice :: "rng \<Rightarrow> nat \<Rightarrow> 'a list \<Rightarrow> 'a" where
  "random_choice draws n xs = xs ! (draws n mod length xs)"

definition choose_side :: "string \<Rightarrow> rng \<Rightarrow> nat \<Rightarrow> string \<times> nat" where
  "choose_side side_strategy draws n =
     (if side_strategy = ''yes'' then (''yes'', n)
      else if side_strategy = ''no'' then (''no'', n)
      else (random_choice draws n [''yes'', ''no''], Suc n))"

subsection \<open>_limit_price_cents_for_buy\<close>

text \<open>
  \<open>round\<close> on a number: to the nearest integer, a tie to the even one. On a float
  that is not finite \<open>round\<close> raises (\<open>OverflowError\<close> on an infinity,
  \<open>ValueError\<close> on NaN); such floats are not values of this model (see Values), so
  here the price is computed for every market. The properties of the order loop say
  where that matters.
\<close>

definition py_round :: "rat \<Rightarrow> int" where
  "py_round x =
     (let f = \<lfloor>x\<rfloor>; d = x - of_int f in
      if d < 1 / 2 then f
      else if 1 / 2 < d then f + 1
      else if even f then f else f + 1)"

definition limit_price_cents_for_buy :: "string \<Rightarrow> market \<Rightarrow> int \<Rightarrow> int" where
  "limit_price_cents_for_buy side market price_buffer_cents =
     (let ask = (if side = ''yes'' then dict_get market ''yes_ask''
                 else dict_get market ''no_ask'');
          ask_val = (case num_val ask of None \<Rightarrow> 50 | Some a \<Rightarrow> a);
          price_with_buffer = ask_val + of_int price_buffer_cents
      in max 1 (min 99 (py_round price_with_buffer)))"

subsection \<open>_headers_for_kalshi, _post_create_order\<close>

definition headers_for_kalshi :: "string \<Rightarrow> string \<Rightarrow> string \<Rightarrow> (string \<times> string) list" where
  "headers_for_kalshi key_id signature_b64 timestamp_ms =
     [(''Content-Type'', ''application/json''),
      (''KALSHI-ACCESS-KEY'', key_id),
      (''KALSHI-ACCESS-SIGNATURE'', signature_b64),
      (''KALSHI-ACCESS-TIMESTAMP'', timestamp_ms)]"

text \<open>\<open>str(int(x))\<close>: truncation towards zero, written in decimal.\<close>

definition py_int :: "rat \<Rightarrow> int" where
  "py_int x = (if 0 \<le> x then \<lfloor>x\<rfloor> else \<lceil>x\<rceil>)"

fun str_nat :: "nat \<Rightarrow> string" where
  "str_nat n =
     (if n < 10 then [''0123456789'' ! n]
      else str_nat (n div 10) @ [''0123456789'' ! (n mod 10)])"

declare str_nat.simps [simp del]

definition str_int :: "int \<Rightarrow> string" where
  "str_int i = (if i < 0 then CHR ''-'' # str_nat (nat (- i)) else str_nat (nat i))"

text \<open>
  The reply to the POST: \<open>requests.post\<close> raises, or there is a response with its
  status code, its text and what \<open>r.json()\<close> gives (\<open>None\<close> where it raises).
\<close>

record http_reply =
  status_code :: nat
  reply_text :: string
  reply_json :: "json option"

datatype post_result = PostRaises error | Reply http_reply

text \<open>
  What \<open>buy_from_pool\<close> reads from outside: the crypto library, \<open>json.dumps\<close>
  with compact separators, the clock at the n-th submission, the exchange, and the
  random generator.
\<close>

record 'k buy_env =
  crypto_lib :: "'k crypto"
  json_dumps :: "market \<Rightarrow> string"
  clock :: "nat \<Rightarrow> rat"
  http_post :: "string \<Rightarrow> string \<Rightarrow> (string \<times> string) list \<Rightarrow> post_result"
  random_draws :: rng

definition post_create_order ::
  "'k buy_env \<Rightarrow> nat \<Rightarrow> market \<Rightarrow> string \<Rightarrow> string \<Rightarrow> error + json" where
  "post_create_order env n order_body key_id private_key_pem =
     (let path = ''/trade-api/v2/portfolio/orders'';
          url = ''https://api.elections.kalshi.com'' @ path;
          body_text = json_dumps env order_body;
          timestamp_ms = str_int (py_int (clock env n * 1000))
      in case sign_request (crypto_lib env) ''POST'' path body_text timestamp_ms key_id private_key_pem of
           Inl e \<Rightarrow> Inl e
         | Inr signature_b64 \<Rightarrow>
             (case http_post env url body_text (headers_for_kalshi key_id signature_b64 timestamp_ms) of
                PostRaises e \<Rightarrow> Inl e
              | Reply r \<Rightarrow>
                  if 400 \<le> status_code r \<and> status_code r < 600
                  then Inl (HTTPError (status_code r) (reply_text r))
                  else (case reply_json r of
                          None \<Rightarrow> Inl JSONDecodeError
                        | Some j \<Rightarrow> Inr j)))"

subsection \<open>buy_from_pool\<close>

text \<open>The order for one target, as the loop body assembles it.\<close>

definition order_body :: "json \<Rightarrow> string \<Rightarrow> market \<Rightarrow> bool \<Rightarrow> market" where
  "order_body ticker side m use_market_orders =
     (let body = [(''ticker'', ticker), (''side'', JStr side), (''action'', JStr ''buy''),
                  (''count'', JInt 1), (''time_in_force'', JStr ''GTC'')]
      in if use_market_orders then AList.update ''type'' (JStr ''market'') body
         else
           let body = AList.update ''type'' (JStr ''limit'') body in
           if side = ''yes''
           then AList.update ''yes_price'' (JInt (limit_price_cents_for_buy ''yes'' m 2)) body
           else AList.update ''no_price'' (JInt (limit_price_cents_for_buy ''no'' m 2)) body)"

text \<open>
  \<open>resp.get('order',{}).get('status')\<close> in the success line is evaluated inside the
  \<open>try\<close>: it raises \<open>AttributeError\<close> unless \<open>resp\<close> is a dict whose
  \<open>order\<close>, when present, is a dict.
\<close>

definition status_readable :: "json \<Rightarrow> bool" where
  "status_readable resp =
     (case resp of
        JObj kvs \<Rightarrow>
          (case map_of kvs ''order'' of
             None \<Rightarrow> True
           | Some (JObj ord) \<Rightarrow> True
           | Some _ \<Rightarrow> False)
      | _ \<Rightarrow> False)"

text \<open>
  The loop over the targets. It carries the position in the random generator, the
  results, and the trace of the submissions made so far: each call of
  \<open>_post_create_order\<close> with its order and its outcome. \<open>m["ticker"]\<close> and
  the assembly of the order, price included, are outside the \<open>try\<close>: a target
  without a ticker raises \<open>KeyError\<close> out of the function, and what was collected
  so far is lost (so would an exception of the price computation, which has none on
  the values of this model). Both handlers only print.
\<close>

type_synonym attempt = "market \<times> (error + json)"

fun buy_loop ::
  "'k buy_env \<Rightarrow> string \<Rightarrow> string \<Rightarrow> string \<Rightarrow> bool \<Rightarrow> market list \<Rightarrow> nat \<Rightarrow>
   (json \<times> json) list \<Rightarrow> attempt list \<Rightarrow> (error + (json \<times> json) list) \<times> attempt list"
where
  "buy_loop env key_id pem side_strategy use_market_orders [] n results trace =
     (Inr results, trace)"
| "buy_loop env key_id pem side_strategy use_market_orders (m # targets) n results trace =
     (case map_of m ''ticker'' of
        None \<Rightarrow> (Inl (KeyError ''ticker''), trace)
      | Some ticker \<Rightarrow>
          (case choose_side side_strategy (random_draws env) n of
             (side, n') \<Rightarrow>
               let body = order_body ticker side m use_market_orders;
                   outcome = post_create_order env (length trace) body key_id pem
               in (case outcome of
                     Inr resp \<Rightarrow>
                       if status_readable resp
                       then buy_loop env key_id pem side_strategy use_market_orders targets n'
                              (results @ [(ticker, resp)]) (trace @ [(body, outcome)])
                       else buy_loop env key_id pem side_strategy use_market_orders targets n'
                              results (trace @ [(body, outcome)])
                   | Inl (HTTPError code msg) \<Rightarrow>
                       buy_loop env key_id pem side_strategy use_market_orders targets n'
                         results (trace @ [(body, outcome)])
                   | Inl e \<Rightarrow>
                       buy_loop env key_id pem side_strategy use_market_orders targets n'
                         results (trace @ [(body, outcome)]))))"

text \<open>\<open>targets\<close>, with the position of the random generator after choosing them.\<close>

definition choose_targets :: "rng \<Rightarrow> string \<Rightarrow> market list \<Rightarrow> market list \<times> nat" where
  "choose_targets draws choose_arg pool =
     (if choose_arg = ''one_random'' then ([random_choice draws 0 pool], 1)
      else (pool, 0))"

definition buy_from_pool ::
  "'k buy_env \<Rightarrow> market list \<Rightarrow> string \<Rightarrow> string \<Rightarrow> string \<Rightarrow> string \<Rightarrow> bool \<Rightarrow>
   (error + (json \<times> json) list) \<times> attempt list" where
  "buy_from_pool env pool kalshi_key_id private_key_pem choose_arg side_strategy use_market_orders =
     (if pool = [] then (Inr [], [])
      else case choose_targets (random_draws env) choose_arg pool of
             (targets, n) \<Rightarrow>
               buy_loop env kalshi_key_id private_key_pem side_strategy use_market_orders
                 targets n [] [])"

section \<open>Example inputs\<close>

text \<open>The quotes of the specification's example, with a given liquidity.\<close>

definition quote_40_55_45_60 :: "int \<Rightarrow> market" where
  "quote_40_55_45_60 liq =
     [(''ticker'', JStr ''KXBTC-T1''), (''yes_bid'', JInt 40), (''yes_ask'', JInt 55),
      (''no_bid'', JInt 45), (''no_ask'', JInt 60), (''liquidity'', JInt liq)]"

text \<open>A dead yes quote: bid and ask both \<open>p\<close>.\<close>

definition dead_quote :: "int \<Rightarrow> int \<Rightarrow> market" where
  "dead_quote p liq =
     [(''ticker'', JStr ''KXBTC-T2''), (''yes_bid'', JInt p), (''yes_ask'', JInt p),
      (''no_bid'', JInt 45), (''no_ask'', JInt 60), (''liquidity'', JInt liq)]"

text \<open>
  A stand-in for the crypto library that shows what it was called with: the key is its
  PEM text, and the signature is the message behind a tag naming the salt length.
\<close>

definition toy_crypto :: "string crypto" where
  "toy_crypto =
     \<lparr> load_pem_private_key = (\<lambda>pem. if pem = [] then None else Some pem),
       rsa_sign = (\<lambda>key msg pad h.
          (case pad of
             PSS g MAX_LENGTH \<Rightarrow> ''max-salt:''
           | PSS g DIGEST_LENGTH \<Rightarrow> ''digest-salt:''
           | _ \<Rightarrow> ''other:'') @ msg) \<rparr>"

text \<open>
  A stand-in for the exchange: it rejects the order for \<open>KXBTC-B\<close> with status 400,
  times out on \<open>KXBTC-D\<close>, and accepts every other order. The stand-in for
  \<open>json.dumps\<close> writes the ticker only.
\<close>

definition toy_exchange :: "string \<Rightarrow> string \<Rightarrow> (string \<times> string) list \<Rightarrow> post_result" where
  "toy_exchange url body_text headers =
     (if body_text = ''KXBTC-B'' then
        Reply \<lparr> status_code = 400, reply_text = ''insufficient_resting_volume'', reply_json = None \<rparr>
      else if body_text = ''KXBTC-D'' then PostRaises Timeout
      else
        Reply \<lparr> status_code = 201, reply_text = [],
                reply_json = Some (JObj [(''order'', JObj [(''status'', JStr ''resting'')])]) \<rparr>)"

definition toy_buy_env :: "string buy_env" where
  "toy_buy_env =
     \<lparr> crypto_lib = toy_crypto,
       json_dumps = (\<lambda>body. case map_of body ''ticker'' of Some (JStr t) \<Rightarrow> t | _ \<Rightarrow> []),
       clock = (\<lambda>n. 1735689600 + of_nat n),
       http_post = toy_exchange,
       random_draws = (\<lambda>n. n) \<rparr>"

definition three_targets :: "market list" where
  "three_targets =
     [[(''ticker'', JStr ''KXBTC-A''), (''yes_ask'', JInt 55), (''no_ask'', JInt 60)],
      [(''ticker'', JStr ''KXBTC-B''), (''yes_ask'', JInt 98), (''no_ask'', JInt 3)],
      [(''ticker'', JStr ''KXBTC-C''), (''no_ask'', JInt 60)]]"

text \<open>
  A table standing in for \<open>datetime.fromisoformat(s).timestamp()\<close>: three instants
  around 2025-01-01T00:00:00Z, which is \<open>example_now\<close>; every other string is
  not a timestamp.
\<close>

definition example_iso :: "string \<Rightarrow> rat option" where
  "example_iso s =
     (if s = ''2025-01-01T00:03:00+00:00'' then Some 1735689780
      else if s = ''2025-01-01T00:10:00+00:00'' then Some 1735690200
      else if s = ''2024-12-31T23:00:00+00:00'' then Some 1735686000
      else None)"

definition example_now :: rat where
  "example_now = 1735689600"

text \<open>A contract of an event with a close time, with quotes that pass the filter.\<close>

definition event_market :: "string \<Rightarrow> string \<Rightarrow> market" where
  "event_market evt close_time =
     [(''ticker'', JStr (evt @ ''-T1'')), (''event_ticker'', JStr evt),
      (''close_time'', JStr close_time),
      (''yes_bid'', JInt 40), (''yes_ask'', JInt 55), (''no_bid'', JInt 45), (''no_ask'', JInt 60),
      (''liquidity'', JInt 5000)]"

text \<open>A contract as the listing may return it, without \<open>event_ticker\<close>.\<close>

definition orphan_market :: market where
  "orphan_market =
     [(''ticker'', JStr ''KXBTC-X-T1''), (''close_time'', JStr ''2025-01-01T00:10:00Z''),
      (''yes_bid'', JInt 40), (''yes_ask'', JInt 55), (''no_bid'', JInt 45), (''no_ask'', JInt 60),
      (''liquidity'', JInt 5000)]"

text \<open>
  A listing server: the first series answers 503, the second has one contract on its
  first page and an empty second page, the others have no open contract.
\<close>

definition toy_listing :: listing_server where
  "toy_listing series_ticker limit cursor =
     (if series_ticker = ''KXETHD'' then Raises (HTTPError 503 ''Service Unavailable'')
      else if series_ticker = ''KXETH'' then
        (case cursor of
           None \<Rightarrow> Page [event_market ''KXETH-L'' ''2025-01-01T00:10:00Z''] (JStr ''page-2'')
         | Some c \<Rightarrow> Page [] JNull)
      else Page [] JNull)"

definition toy_pool_env :: pool_env where
  "toy_pool_env =
     \<lparr> listing = toy_listing,
       time_time = (\<lambda>series. example_now),
       fromisoformat_timestamp = example_iso,
       float_ok = (\<lambda>s. True) \<rparr>"


section \<open>Properties\<close>

subsection \<open>Helper lemmas\<close>




lemma not_PInf_less: "\<not> PInf < x"
  by (cases x) auto

lemma filter_ladder_acc:
  assumes "\<forall>m \<in> set ladder. yes_spread m < Fin 30 \<and> no_spread m < Fin 30
             \<longrightarrow> is_number (dict_get_default m ''liquidity'' (JInt 0))"
  shows "filter_ladder evt ladder acc =
           Inr (acc @ map (annotate evt)
                  (filter (\<lambda>m. yes_spread m < Fin 30 \<and> no_spread m < Fin 30
                                \<and> 1000 \<le> liquidity_key m) ladder))"
  using assms
proof (induction ladder arbitrary: acc)
  case Nil
  then show ?case by simp
next
  case (Cons m ladder)
  have pf: "passes_filters m =
              Inr (yes_spread m < Fin 30 \<and> no_spread m < Fin 30 \<and> 1000 \<le> liquidity_key m)"
    using Cons.prems
    by (auto simp add: passes_filters_def Let_def is_number_def liquidity_key_def
          MAX_SPREAD_CENTS_def MIN_LIQUIDITY_CENTS_def split: option.splits)
  from Cons show ?case by (simp add: pf)
qed


lemma order_body_limit_price:
  "\<exists>i. 1 \<le> i \<and> i \<le> 99 \<and>
       (map_of (order_body t side m False) ''yes_price'' = Some (JInt i)
          \<and> map_of (order_body t side m False) ''no_price'' = None
        \<or> map_of (order_body t side m False) ''no_price'' = Some (JInt i)
          \<and> map_of (order_body t side m False) ''yes_price'' = None)"
proof (cases "side = ''yes''")
  case True
  have "1 \<le> limit_price_cents_for_buy ''yes'' m 2 \<and> limit_price_cents_for_buy ''yes'' m 2 \<le> 99"
    by (simp add: limit_price_cents_for_buy_def Let_def)
  with True show ?thesis
    by (intro exI [of _ "limit_price_cents_for_buy ''yes'' m 2"])
       (simp add: order_body_def Let_def update_conv')
next
  case False
  have "1 \<le> limit_price_cents_for_buy ''no'' m 2 \<and> limit_price_cents_for_buy ''no'' m 2 \<le> 99"
    by (simp add: limit_price_cents_for_buy_def Let_def)
  with False show ?thesis
    by (intro exI [of _ "limit_price_cents_for_buy ''no'' m 2"])
       (simp add: order_body_def Let_def update_conv')
qed

lemma buy_loop_step:
  assumes "map_of m ''ticker'' = Some t"
  shows "\<exists>side n' out res'.
           buy_loop env k pem s u (m # targets) n results trace =
             buy_loop env k pem s u targets n' (results @ res') (trace @ [(order_body t side m u, out)])
           \<and> res' = (case out of Inr resp \<Rightarrow> if status_readable resp then [(t, resp)] else []
                                | Inl e \<Rightarrow> [])"
proof -
  obtain side n' where cs: "choose_side s (random_draws env) n = (side, n')"
    by (cases "choose_side s (random_draws env) n")
  define out where "out = post_create_order env (length trace) (order_body t side m u) k pem"
  show ?thesis
    apply (rule exI [of _ side], rule exI [of _ n'], rule exI [of _ out])
    apply (cases out)
    subgoal for e
      using assms cs by (cases e) (simp_all add: out_def [symmetric] Let_def)
    subgoal for resp
      using assms cs by (simp add: out_def [symmetric] Let_def)
    done
qed


lemma buy_loop_prices:
  "\<forall>a \<in> set (snd (buy_loop env k pem s False targets n results trace)).
     a \<in> set trace \<or>
     (\<exists>i. 1 \<le> i \<and> i \<le> 99 \<and>
        (map_of (fst a) ''yes_price'' = Some (JInt i) \<and> map_of (fst a) ''no_price'' = None
         \<or> map_of (fst a) ''no_price'' = Some (JInt i) \<and> map_of (fst a) ''yes_price'' = None))"
proof (induction targets arbitrary: n results trace)
  case Nil
  show ?case by simp
next
  case (Cons m targets)
  show ?case
  proof (cases "map_of m ''ticker''")
    case None
    then show ?thesis by simp
  next
    case (Some t)
    from buy_loop_step [OF Some, of env k pem s False targets n results trace]
    obtain side n' out res' where
      step: "buy_loop env k pem s False (m # targets) n results trace =
             buy_loop env k pem s False targets n' (results @ res')
               (trace @ [(order_body t side m False, out)])"
      by blast
    show ?thesis
      unfolding step
      using Cons.IH [of n' "results @ res'" "trace @ [(order_body t side m False, out)]"]
        order_body_limit_price [of t side m]
      by auto
  qed
qed

lemma toy_post_A:
  "post_create_order toy_buy_env n body ''key-id'' ''PEM'' =
     (if json_dumps toy_buy_env body = ''KXBTC-B'' then Inl (HTTPError 400 ''insufficient_resting_volume'')
      else if json_dumps toy_buy_env body = ''KXBTC-D'' then Inl Timeout
      else Inr (JObj [(''order'', JObj [(''status'', JStr ''resting'')])]))"
  by (simp add: post_create_order_def toy_buy_env_def toy_exchange_def sign_request_def toy_crypto_def
        Let_def del: b64encode.simps)

lemma toy_run:
  "buy_from_pool toy_buy_env three_targets ''key-id'' ''PEM'' ''all'' ''yes'' False =
     (Inr [(JStr ''KXBTC-A'', JObj [(''order'', JObj [(''status'', JStr ''resting'')])]),
           (JStr ''KXBTC-C'', JObj [(''order'', JObj [(''status'', JStr ''resting'')])])],
      [(order_body (JStr ''KXBTC-A'') ''yes'' (three_targets ! 0) False,
          Inr (JObj [(''order'', JObj [(''status'', JStr ''resting'')])])),
       (order_body (JStr ''KXBTC-B'') ''yes'' (three_targets ! 1) False,
          Inl (HTTPError 400 ''insufficient_resting_volume'')),
       (order_body (JStr ''KXBTC-C'') ''yes'' (three_targets ! 2) False,
          Inr (JObj [(''order'', JObj [(''status'', JStr ''resting'')])]))])"
proof -
  have d: "json_dumps toy_buy_env (order_body (JStr t) side m u) = t" for t side m u
    by (simp add: toy_buy_env_def order_body_def Let_def update_conv')
  show ?thesis
    by (simp add: buy_from_pool_def choose_targets_def three_targets_def choose_side_def
          toy_post_A d status_readable_def Let_def)
qed

lemma py_eq_refl: "py_eq k k"
  by (simp add: py_eq_def split: option.splits)

lemma fold_min_le_init: "fold min xs (a::pyfloat) \<le> a"
proof (induction xs arbitrary: a)
  case Nil
  then show ?case by simp
next
  case (Cons y ys)
  have "fold min ys (min y a) \<le> min y a" by (rule Cons.IH)
  also have "\<dots> \<le> a" by simp
  finally show ?case by simp
qed

lemma fold_min_le_elem: "x \<in> set xs \<Longrightarrow> fold min xs (a::pyfloat) \<le> x"
proof (induction xs arbitrary: a)
  case Nil
  then show ?case by simp
next
  case (Cons y ys)
  show ?case
  proof (cases "x = y")
    case True
    have "fold min ys (min y a) \<le> min y a" by (rule fold_min_le_init)
    also have "\<dots> \<le> y" by simp
    finally show ?thesis using True by simp
  next
    case False
    with Cons show ?thesis by simp
  qed
qed

lemma group_close_time_le:
  "m \<in> set g \<Longrightarrow>
     group_close_time iso_ts g \<le> parse_iso_utc iso_ts (dict_get_default m ''close_time'' (JStr []))"
  unfolding group_close_time_def by (rule fold_min_le_elem) simp

lemma setdefault_append_keys:
  "e \<in> set (setdefault_append k m be) \<Longrightarrow> fst e = k \<or> fst e \<in> fst ` set be"
proof (induction be)
  case Nil
  then show ?case by simp
next
  case (Cons x be)
  obtain k' g where x: "x = (k', g)" by (cases x)
  show ?case
  proof (cases "py_eq k' k")
    case True
    with Cons.prems show ?thesis by (auto simp add: x)
  next
    case False
    with Cons.prems have "e = (k', g) \<or> e \<in> set (setdefault_append k m be)"
      by (simp add: x)
    with Cons.IH show ?thesis by (auto simp add: x)
  qed
qed

lemma setdefault_append_nonempty:
  "\<forall>e \<in> set be. snd e \<noteq> [] \<Longrightarrow> e \<in> set (setdefault_append k m be) \<Longrightarrow> snd e \<noteq> []"
proof (induction be)
  case Nil
  then show ?case by auto
next
  case (Cons x be)
  obtain k' g where x: "x = (k', g)" by (cases x)
  show ?case
  proof (cases "py_eq k' k")
    case True
    with Cons.prems show ?thesis by (auto simp add: x)
  next
    case False
    with Cons.prems have "e = (k', g) \<or> e \<in> set (setdefault_append k m be)"
      by (simp add: x)
    with Cons show ?thesis by (auto simp add: x)
  qed
qed

lemma setdefault_append_member:
  "\<exists>e \<in> set (setdefault_append k m be). m \<in> set (snd e)"
proof (induction be)
  case Nil
  then show ?case by simp
next
  case (Cons x be)
  obtain k' g where x: "x = (k', g)" by (cases x)
  show ?case
  proof (cases "py_eq k' k")
    case True
    then show ?thesis by (simp add: x)
  next
    case False
    with Cons.IH show ?thesis by (simp add: x)
  qed
qed

lemma setdefault_append_mono:
  "(k', g) \<in> set be \<Longrightarrow> \<exists>g'. (k', g') \<in> set (setdefault_append k m be) \<and> set g \<subseteq> set g'"
proof (induction be)
  case Nil
  then show ?case by simp
next
  case (Cons x be)
  obtain k1 g1 where x: "x = (k1, g1)" by (cases x)
  show ?case
  proof (cases "(k', g) = (k1, g1)")
    case True
    show ?thesis
    proof (cases "py_eq k1 k")
      case True
      with \<open>(k', g) = (k1, g1)\<close> show ?thesis
        by (intro exI [of _ "g1 @ [m]"]) (auto simp add: x)
    next
      case False
      with \<open>(k', g) = (k1, g1)\<close> show ?thesis
        by (intro exI [of _ "g1"]) (auto simp add: x)
    qed
  next
    case False
    with Cons.prems have "(k', g) \<in> set be" by (auto simp add: x)
    from Cons.IH [OF this] obtain g' where
      g': "(k', g') \<in> set (setdefault_append k m be)" "set g \<subseteq> set g'" by blast
    show ?thesis
    proof (cases "py_eq k1 k")
      case True
      with \<open>(k', g) \<in> set be\<close> show ?thesis
        by (intro exI [of _ g]) (simp add: x)
    next
      case False
      with g' show ?thesis
        by (intro exI [of _ g']) (simp add: x)
    qed
  qed
qed

lemma group_by_event_loop_keys:
  "group_by_event_loop ms be = Inr be' \<Longrightarrow> \<forall>(k, g) \<in> set be. truthy k \<and> g \<noteq> []
     \<Longrightarrow> \<forall>(k, g) \<in> set be'. truthy k \<and> g \<noteq> []"
proof (induction ms arbitrary: be)
  case Nil
  then show ?case by simp
next
  case (Cons m ms)
  show ?case
  proof (cases "truthy (dict_get m ''event_ticker'')")
    case False
    with Cons show ?thesis by (simp add: Let_def)
  next
    case True
    with Cons.prems(1) have h: "hashable (dict_get m ''event_ticker'')"
      and r: "group_by_event_loop ms (setdefault_append (dict_get m ''event_ticker'') m be) = Inr be'"
      by (auto simp add: Let_def split: if_splits)
    have "\<forall>(k, g) \<in> set (setdefault_append (dict_get m ''event_ticker'') m be). truthy k \<and> g \<noteq> []"
    proof (clarify, rule conjI)
      fix k g
      assume kg: "(k, g) \<in> set (setdefault_append (dict_get m ''event_ticker'') m be)"
      from setdefault_append_keys [OF kg] True Cons.prems(2) show "truthy k"
        by auto
      from Cons.prems(2) have "\<forall>e \<in> set be. snd e \<noteq> []" by auto
      from setdefault_append_nonempty [OF this kg] show "g \<noteq> []" by simp
    qed
    from Cons.IH [OF r this] show ?thesis .
  qed
qed

lemma group_by_event_loop_mono:
  "group_by_event_loop ms be = Inr be' \<Longrightarrow> (k, g) \<in> set be
     \<Longrightarrow> \<exists>g'. (k, g') \<in> set be' \<and> set g \<subseteq> set g'"
proof (induction ms arbitrary: be g)
  case Nil
  then show ?case by auto
next
  case (Cons m ms)
  show ?case
  proof (cases "truthy (dict_get m ''event_ticker'')")
    case False
    with Cons show ?thesis by (simp add: Let_def)
  next
    case True
    with Cons.prems(1) have
      r: "group_by_event_loop ms (setdefault_append (dict_get m ''event_ticker'') m be) = Inr be'"
      by (auto simp add: Let_def split: if_splits)
    from setdefault_append_mono [OF Cons.prems(2), of "dict_get m ''event_ticker''" m]
    obtain g1 where g1: "(k, g1) \<in> set (setdefault_append (dict_get m ''event_ticker'') m be)"
      and s1: "set g \<subseteq> set g1" by blast
    from Cons.IH [OF r g1] obtain g' where "(k, g') \<in> set be'" "set g1 \<subseteq> set g'" by blast
    with s1 show ?thesis by blast
  qed
qed

lemma group_by_event_loop_member:
  "group_by_event_loop ms be = Inr be' \<Longrightarrow> m \<in> set ms \<Longrightarrow> truthy (dict_get m ''event_ticker'')
     \<Longrightarrow> \<exists>(k, g) \<in> set be'. m \<in> set g"
proof (induction ms arbitrary: be)
  case Nil
  then show ?case by simp
next
  case (Cons x ms)
  show ?case
  proof (cases "truthy (dict_get x ''event_ticker'')")
    case False
    with Cons show ?thesis by (auto simp add: Let_def)
  next
    case True
    with Cons.prems(1) have
      r: "group_by_event_loop ms (setdefault_append (dict_get x ''event_ticker'') x be) = Inr be'"
      by (auto simp add: Let_def split: if_splits)
    show ?thesis
    proof (cases "m \<in> set ms")
      case True
      from Cons.IH [OF r True Cons.prems(3)] show ?thesis .
    next
      case False
      with Cons.prems(2) have mx: "m = x" by simp
      from setdefault_append_member [of "dict_get x ''event_ticker''" x be]
      obtain k g where "(k, g) \<in> set (setdefault_append (dict_get x ''event_ticker'') x be)" "x \<in> set g"
        by force
      with group_by_event_loop_mono [OF r this(1)] mx show ?thesis by blast
    qed
  qed
qed

lemma event_pass_snd_le:
  "snd (event_pass iso_ts admit be best) \<le> snd best"
proof (induction be arbitrary: best)
  case Nil
  then show ?case by simp
next
  case (Cons e be)
  obtain evt g where e: "e = (evt, g)" by (cases e)
  obtain b c where best: "best = (b, c)" by (cases best)
  show ?case
    using Cons.IH [of "(evt, group_close_time iso_ts g)"] Cons.IH [of "(b, c)"]
    by (auto simp add: e best Let_def intro: order_trans less_imp_le)
qed

lemma event_pass_result:
  "event_pass iso_ts admit be best = best
   \<or> (\<exists>g. (fst (event_pass iso_ts admit be best), g) \<in> set be)"
proof (induction be arbitrary: best)
  case Nil
  then show ?case by simp
next
  case (Cons e be)
  obtain evt g where e: "e = (evt, g)" by (cases e)
  obtain b c where best: "best = (b, c)" by (cases best)
  show ?case
    using Cons.IH [of "(evt, group_close_time iso_ts g)"] Cons.IH [of "(b, c)"]
    by (auto simp add: e best Let_def)
qed

lemma event_pass_finds:
  "(k, g) \<in> set be \<Longrightarrow> admit (group_close_time iso_ts g) \<Longrightarrow> group_close_time iso_ts g < snd best
     \<Longrightarrow> snd (event_pass iso_ts admit be best) < snd best"
proof (induction be arbitrary: best)
  case Nil
  then show ?case by simp
next
  case (Cons e be)
  obtain evt g' where e: "e = (evt, g')" by (cases e)
  obtain b c where best: "best = (b, c)" by (cases best)
  show ?case
  proof (cases "admit (group_close_time iso_ts g') \<and> group_close_time iso_ts g' < c")
    case True
    have "snd (event_pass iso_ts admit be (evt, group_close_time iso_ts g')) \<le> group_close_time iso_ts g'"
      using event_pass_snd_le [of iso_ts admit be "(evt, group_close_time iso_ts g')"] by simp
    with True have "snd (event_pass iso_ts admit be (evt, group_close_time iso_ts g')) < c"
      by (auto intro: le_less_trans)
    with True show ?thesis by (simp add: e best Let_def)
  next
    case False
    with Cons.prems have "(k, g) \<in> set be" by (auto simp add: e best)
    from Cons.IH [OF this Cons.prems(2), of "(b, c)"] Cons.prems(3) False
    show ?thesis by (auto simp add: e best Let_def)
  qed
qed

lemma by_event_get_entry:
  "(k, g) \<in> set be \<Longrightarrow> \<exists>k'. (k', by_event_get be k) \<in> set be \<and> py_eq k' k"
  by (induction be) (auto simp add: py_eq_refl)

lemma ct_examples:
  "group_close_time example_iso [event_market e ''2025-01-01T00:03:00Z''] = Fin 1735689780"
  "group_close_time example_iso [event_market e ''2025-01-01T00:10:00Z''] = Fin 1735690200"
  "group_close_time example_iso [event_market e ''2024-12-31T23:00:00Z''] = Fin 1735686000"
  "group_close_time example_iso [event_market e ''soon''] = PInf"
  by (simp_all add: group_close_time_def parse_iso_utc_def replace_Z_def example_iso_def
        dict_get_default_def event_market_def)

lemma gbe_examples:
  "group_by_event [orphan_market] = Inr []"
  "group_by_event [event_market ''KXBTC-U'' ''soon''] = Inr [(JStr ''KXBTC-U'', [event_market ''KXBTC-U'' ''soon''])]"
  "group_by_event [event_market ''KXBTC-S'' ''2025-01-01T00:03:00Z'', event_market ''KXBTC-L'' ''2025-01-01T00:10:00Z'']
     = Inr [(JStr ''KXBTC-S'', [event_market ''KXBTC-S'' ''2025-01-01T00:03:00Z'']),
            (JStr ''KXBTC-L'', [event_market ''KXBTC-L'' ''2025-01-01T00:10:00Z''])]"
  by (simp_all add: group_by_event_def Let_def dict_get_def py_eq_def event_market_def orphan_market_def)

lemma pick_two_events_example:
  "pick_soonest_future_event example_iso example_now
     [(JStr ''KXBTC-S'', [event_market ''KXBTC-S'' ''2025-01-01T00:03:00Z'']),
      (JStr ''KXBTC-L'', [event_market ''KXBTC-L'' ''2025-01-01T00:10:00Z''])]
   = (JStr ''KXBTC-L'', [event_market ''KXBTC-L'' ''2025-01-01T00:10:00Z''])"
  by (simp add: pick_soonest_future_event_def ct_examples Let_def MIN_TIME_BUFFER_MINUTES_def
        example_now_def py_eq_def)

lemma pick_one_event_example:
  "pick_soonest_future_event example_iso example_now
     [(JStr ''KXBTC-S'', [event_market ''KXBTC-S'' ''2025-01-01T00:03:00Z''])]
   = (JStr ''KXBTC-S'', [event_market ''KXBTC-S'' ''2025-01-01T00:03:00Z''])"
  by (simp add: pick_soonest_future_event_def ct_examples Let_def MIN_TIME_BUFFER_MINUTES_def
        example_now_def py_eq_def)

lemma pick_closed_event_example:
  "pick_soonest_future_event example_iso example_now
     [(JStr ''KXBTC-C'', [event_market ''KXBTC-C'' ''2024-12-31T23:00:00Z''])]
   = (JStr ''KXBTC-C'', [event_market ''KXBTC-C'' ''2024-12-31T23:00:00Z''])"
  by (simp add: pick_soonest_future_event_def ct_examples Let_def MIN_TIME_BUFFER_MINUTES_def
        example_now_def py_eq_def)

lemma pick_selects_entry:
  assumes keys: "\<forall>(k, g) \<in> set be. truthy k \<and> g \<noteq> []"
    and fin: "(k0, g0) \<in> set be" "group_close_time iso_ts g0 \<noteq> PInf"
  shows "\<exists>k ladder. pick_soonest_future_event iso_ts now_ts be = (k, ladder)
           \<and> truthy k \<and> ladder \<noteq> [] \<and> (\<exists>k'. (k', ladder) \<in> set be \<and> py_eq k' k)"
proof -
  define init :: "json \<times> pyfloat" where "init = (JNull, PInf)"
  define p1 where "p1 = event_pass iso_ts (\<lambda>ct. Fin (now_ts + MIN_TIME_BUFFER_MINUTES * 60) \<le> ct) be init"
  define p2 where "p2 = (if fst p1 = JNull then event_pass iso_ts (\<lambda>ct. Fin now_ts \<le> ct) be p1 else p1)"
  define p3 where "p3 = (if fst p2 = JNull then event_pass iso_ts (\<lambda>ct. True) be p2 else p2)"
  have ne: "be \<noteq> []" using fin by auto
  have pick: "pick_soonest_future_event iso_ts now_ts be = (fst p3, by_event_get be (fst p3))"
    using ne by (simp add: pick_soonest_future_event_def Let_def p1_def p2_def p3_def init_def)
  have nonnull: "\<And>k g. (k, g) \<in> set be \<Longrightarrow> k \<noteq> JNull"
    using keys by fastforce
  have e1: "p1 = init \<or> (\<exists>g. (fst p1, g) \<in> set be)"
    unfolding p1_def by (rule event_pass_result)
  have e2: "p2 = init \<or> (\<exists>g. (fst p2, g) \<in> set be)"
  proof (cases "fst p1 = JNull")
    case True
    with e1 nonnull have "p1 = init" by auto
    with True have "p2 = event_pass iso_ts (\<lambda>ct. Fin now_ts \<le> ct) be init"
      by (simp add: p2_def)
    then show ?thesis
      using event_pass_result [of iso_ts "\<lambda>ct. Fin now_ts \<le> ct" be init] by simp
  next
    case False
    then have "p2 = p1" by (simp add: p2_def)
    with e1 False show ?thesis by (auto simp add: init_def)
  qed
  have e3: "\<exists>g. (fst p3, g) \<in> set be"
  proof (cases "fst p2 = JNull")
    case True
    with e2 nonnull have p2i: "p2 = init" by auto
    with True have p3e: "p3 = event_pass iso_ts (\<lambda>ct. True) be init"
      by (simp add: p3_def)
    have "group_close_time iso_ts g0 < snd init"
      using fin(2) by (cases "group_close_time iso_ts g0") (simp_all add: init_def)
    from event_pass_finds [OF fin(1) _ this, of "\<lambda>ct. True"]
    have "snd p3 < snd init" by (simp add: p3e)
    then have "p3 \<noteq> init" by auto
    with event_pass_result [of iso_ts "\<lambda>ct. True" be init] show ?thesis
      by (simp add: p3e)
  next
    case False
    then have "p3 = p2" by (simp add: p3_def)
    with e2 False show ?thesis by (auto simp add: init_def)
  qed
  then obtain g where g: "(fst p3, g) \<in> set be" by blast
  from by_event_get_entry [OF g] obtain k' where
    k': "(k', by_event_get be (fst p3)) \<in> set be" "py_eq k' (fst p3)" by blast
  from keys g have "truthy (fst p3)" by fastforce
  moreover from keys k'(1) have "by_event_get be (fst p3) \<noteq> []" by fastforce
  ultimately show ?thesis
    using pick k' by blast
qed

lemma build_pool_loop_step:
  "build_pool_loop env (s # rest) pool = None
   \<or> (\<exists>e. build_pool_loop env (s # rest) pool = Some (Inl e))
   \<or> (\<exists>pool'. build_pool_loop env (s # rest) pool = build_pool_loop env rest pool')"
  by (auto split: option.splits sum.splits prod.splits)

lemma build_pool_loop_after_error:
  assumes "get_open_markets_for_series (listing env) series = Some (Inl e)"
  shows "build_pool_loop env (before @ series # rest) pool \<noteq> Some (Inr pool')"
proof (induction before arbitrary: pool)
  case Nil
  from assms show ?case by simp
next
  case (Cons s before)
  from build_pool_loop_step [of env s "before @ series # rest" pool] Cons.IH
  show ?case by auto
qed

lemma toy_fetch:
  "get_open_markets_for_series toy_listing ''KXETHD'' = Some (Inl (HTTPError 503 ''Service Unavailable''))"
  "get_open_markets_for_series toy_listing ''KXETH''
     = Some (Inr [event_market ''KXETH-L'' ''2025-01-01T00:10:00Z''])"
  "get_open_markets_for_series toy_listing ''KXBTCD'' = Some (Inr [])"
  "get_open_markets_for_series toy_listing ''KXBTC'' = Some (Inr [])"
  "get_open_markets_for_series toy_listing ''KXXRPD'' = Some (Inr [])"
  "get_open_markets_for_series toy_listing ''KXXRP'' = Some (Inr [])"
  by (simp_all add: get_open_markets_for_series_def fetch_pages.simps toy_listing_def)

lemma toy_series_kxeth:
  "group_by_event [event_market ''KXETH-L'' ''2025-01-01T00:10:00Z'']
     = Inr [(JStr ''KXETH-L'', [event_market ''KXETH-L'' ''2025-01-01T00:10:00Z''])]"
  "pick_soonest_future_event example_iso example_now
     [(JStr ''KXETH-L'', [event_market ''KXETH-L'' ''2025-01-01T00:10:00Z''])]
     = (JStr ''KXETH-L'', [event_market ''KXETH-L'' ''2025-01-01T00:10:00Z''])"
  "passes_filters (event_market ''KXETH-L'' ''2025-01-01T00:10:00Z'') = Inr True"
  "map_of (annotate (JStr ''KXETH-L'') (event_market ''KXETH-L'' ''2025-01-01T00:10:00Z'')) ''ticker''
     = Some (JStr ''KXETH-L-T1'')"
  "dict_get_default (annotate (JStr ''KXETH-L'') (event_market ''KXETH-L'' ''2025-01-01T00:10:00Z''))
     ''liquidity_dollars'' (JStr ''0'') = JStr ''0''"
      apply (simp add: group_by_event_def Let_def dict_get_def event_market_def)
     apply (simp add: pick_soonest_future_event_def ct_examples Let_def MIN_TIME_BUFFER_MINUTES_def
        example_now_def py_eq_def)
    apply (simp add: passes_filters_def yes_spread_def no_spread_def dict_get_def dict_get_default_def
        event_market_def MAX_SPREAD_CENTS_def MIN_LIQUIDITY_CENTS_def)
   apply (simp add: annotate_def update_conv' event_market_def)
  apply (simp add: annotate_def update_conv' event_market_def dict_get_default_def)
  done

lemma toy_rest:
  "build_pool_loop toy_pool_env [''KXETH'', ''KXBTCD'', ''KXBTC'', ''KXXRPD'', ''KXXRP''] []
     = Some (Inr [annotate (JStr ''KXETH-L'') (event_market ''KXETH-L'' ''2025-01-01T00:10:00Z'')])"
proof -
  have e: "listing toy_pool_env = toy_listing" "time_time toy_pool_env = (\<lambda>s. example_now)"
    "fromisoformat_timestamp toy_pool_env = example_iso" "float_ok toy_pool_env = (\<lambda>s. True)"
    by (simp_all add: toy_pool_env_def)
  have g: "group_by_event [] = Inr []"
    by (simp add: group_by_event_def)
  have p: "pick_soonest_future_event example_iso example_now [] = (JNull, [])"
    by (simp add: pick_soonest_future_event_def)
  show ?thesis
    by (simp add: e toy_fetch toy_series_kxeth g p top_liquid_def TOP_N_LIQUID_PER_EVENT_def
          float_or_zero_error_def)
qed

subsection \<open>Order pricing\<close>

text \<open>
  C8. For every contract, side and buffer, the limit price is
  \<open>max 1 (min 99 (round (ask + buffer)))\<close>, an integer between 1 and 99 (the ask
  replaced by 50 when it is not a number); and every limit order that
  \<open>buy_from_pool\<close> submits, in any mode, carries exactly one price, for the chosen
  side, between 1 and 99.
\<close>

theorem order_price_in_range:
  "1 \<le> limit_price_cents_for_buy side m buf \<and> limit_price_cents_for_buy side m buf \<le> 99
   \<and> (\<forall>a \<in> set (snd (buy_from_pool env pool key_id pem choose_arg side_strategy False)).
         \<exists>i. 1 \<le> i \<and> i \<le> 99 \<and>
           (map_of (fst a) ''yes_price'' = Some (JInt i) \<and> map_of (fst a) ''no_price'' = None
            \<or> map_of (fst a) ''no_price'' = Some (JInt i) \<and> map_of (fst a) ''yes_price'' = None))"
proof -
  have r: "1 \<le> limit_price_cents_for_buy side m buf \<and> limit_price_cents_for_buy side m buf \<le> 99"
    by (simp add: limit_price_cents_for_buy_def Let_def)
  have t: "\<forall>a \<in> set (snd (buy_from_pool env pool key_id pem choose_arg side_strategy False)).
         \<exists>i. 1 \<le> i \<and> i \<le> 99 \<and>
           (map_of (fst a) ''yes_price'' = Some (JInt i) \<and> map_of (fst a) ''no_price'' = None
            \<or> map_of (fst a) ''no_price'' = Some (JInt i) \<and> map_of (fst a) ''yes_price'' = None)"
  proof (cases "pool = []")
    case True
    then show ?thesis by (simp add: buy_from_pool_def)
  next
    case False
    obtain targets n where c: "choose_targets (random_draws env) choose_arg pool = (targets, n)"
      by (cases "choose_targets (random_draws env) choose_arg pool")
    show ?thesis
      using False c buy_loop_prices [of env key_id pem side_strategy targets n "[]" "[]"]
      by (simp add: buy_from_pool_def)
  qed
  from r t show ?thesis by blast
qed

theorem order_price_in_range_witness:
  "1 \<le> limit_price_cents_for_buy ''yes'' [(''yes_ask'', JInt 98)] 2
   \<and> limit_price_cents_for_buy ''yes'' [(''yes_ask'', JInt 98)] 2 \<le> 99
   \<and> map (\<lambda>a. (map_of (fst a) ''yes_price'', map_of (fst a) ''no_price''))
       (snd (buy_from_pool toy_buy_env three_targets ''key-id'' ''PEM'' ''all'' ''yes'' False))
     = [(Some (JInt 57), None), (Some (JInt 99), None), (Some (JInt 52), None)]"
proof -
  have p: "map (\<lambda>a. (map_of (fst a) ''yes_price'', map_of (fst a) ''no_price''))
       (snd (buy_from_pool toy_buy_env three_targets ''key-id'' ''PEM'' ''all'' ''yes'' False))
     = [(Some (JInt 57), None), (Some (JInt 99), None), (Some (JInt 52), None)]"
    unfolding toy_run
    by (simp add: three_targets_def order_body_def update_conv'
          limit_price_cents_for_buy_def dict_get_def py_round_def)
  from order_price_in_range [of "''yes''" "[(''yes_ask'', JInt 98)]" 2 toy_buy_env three_targets
      "''key-id''" "''PEM''" "''all''" "''yes''"]
  have "1 \<le> limit_price_cents_for_buy ''yes'' [(''yes_ask'', JInt 98)] 2
      \<and> limit_price_cents_for_buy ''yes'' [(''yes_ask'', JInt 98)] 2 \<le> 99"
    by blast
  with p show ?thesis by blast
qed




subsection \<open>Spreads and the filter\<close>

text \<open>
  C6. The yes spread is infinite exactly when the bid or the ask is missing or not a
  number, or both are 0, or both are 100; otherwise it is ask minus bid. The same holds
  for the no spread. A contract with an infinite spread fails the filter whatever its
  liquidity (the liquidity is not even looked at).
\<close>

theorem spread_infinite_iff:
  "(yes_spread m = PInf \<longleftrightarrow>
      (\<not> is_number (dict_get m ''yes_bid'') \<or> \<not> is_number (dict_get m ''yes_ask'')
       \<or> (num_val (dict_get m ''yes_bid'') = Some 0 \<and> num_val (dict_get m ''yes_ask'') = Some 0)
       \<or> (num_val (dict_get m ''yes_bid'') = Some 100 \<and> num_val (dict_get m ''yes_ask'') = Some 100)))
   \<and> (yes_spread m \<noteq> PInf \<longrightarrow>
        (\<exists>b a. num_val (dict_get m ''yes_bid'') = Some b \<and> num_val (dict_get m ''yes_ask'') = Some a
               \<and> yes_spread m = Fin (a - b)))
   \<and> (no_spread m = PInf \<longleftrightarrow>
      (\<not> is_number (dict_get m ''no_bid'') \<or> \<not> is_number (dict_get m ''no_ask'')
       \<or> (num_val (dict_get m ''no_bid'') = Some 0 \<and> num_val (dict_get m ''no_ask'') = Some 0)
       \<or> (num_val (dict_get m ''no_bid'') = Some 100 \<and> num_val (dict_get m ''no_ask'') = Some 100)))
   \<and> (no_spread m \<noteq> PInf \<longrightarrow>
        (\<exists>b a. num_val (dict_get m ''no_bid'') = Some b \<and> num_val (dict_get m ''no_ask'') = Some a
               \<and> no_spread m = Fin (a - b)))
   \<and> (yes_spread m = PInf \<or> no_spread m = PInf \<longrightarrow> passes_filters m = Inr False)"
proof -
  have y1: "yes_spread m = PInf \<longleftrightarrow>
      (\<not> is_number (dict_get m ''yes_bid'') \<or> \<not> is_number (dict_get m ''yes_ask'')
       \<or> (num_val (dict_get m ''yes_bid'') = Some 0 \<and> num_val (dict_get m ''yes_ask'') = Some 0)
       \<or> (num_val (dict_get m ''yes_bid'') = Some 100 \<and> num_val (dict_get m ''yes_ask'') = Some 100))"
    by (auto simp add: yes_spread_def is_number_def Let_def split: option.splits)
  have y2: "yes_spread m \<noteq> PInf \<longrightarrow>
        (\<exists>b a. num_val (dict_get m ''yes_bid'') = Some b \<and> num_val (dict_get m ''yes_ask'') = Some a
               \<and> yes_spread m = Fin (a - b))"
    by (auto simp add: yes_spread_def Let_def split: option.splits)
  have n1: "no_spread m = PInf \<longleftrightarrow>
      (\<not> is_number (dict_get m ''no_bid'') \<or> \<not> is_number (dict_get m ''no_ask'')
       \<or> (num_val (dict_get m ''no_bid'') = Some 0 \<and> num_val (dict_get m ''no_ask'') = Some 0)
       \<or> (num_val (dict_get m ''no_bid'') = Some 100 \<and> num_val (dict_get m ''no_ask'') = Some 100))"
    by (auto simp add: no_spread_def is_number_def Let_def split: option.splits)
  have n2: "no_spread m \<noteq> PInf \<longrightarrow>
        (\<exists>b a. num_val (dict_get m ''no_bid'') = Some b \<and> num_val (dict_get m ''no_ask'') = Some a
               \<and> no_spread m = Fin (a - b))"
    by (auto simp add: no_spread_def Let_def split: option.splits)
  have p: "yes_spread m = PInf \<or> no_spread m = PInf \<longrightarrow> passes_filters m = Inr False"
    by (auto simp add: passes_filters_def Let_def not_PInf_less)
  from y1 y2 n1 n2 p show ?thesis by blast
qed

theorem spread_infinite_iff_witness:
  "yes_spread (dead_quote 0 5000) = PInf \<and> passes_filters (dead_quote 0 5000) = Inr False
   \<and> yes_spread (dead_quote 100 5000) = PInf \<and> passes_filters (dead_quote 100 5000) = Inr False
   \<and> yes_spread [(''yes_ask'', JInt 55)] = PInf
   \<and> yes_spread (quote_40_55_45_60 1000) = Fin (55 - 40)"
  using spread_infinite_iff [of "dead_quote 0 5000"] spread_infinite_iff [of "dead_quote 100 5000"]
    spread_infinite_iff [of "[(''yes_ask'', JInt 55)]"]
    spread_infinite_iff [of "quote_40_55_45_60 1000"]
  by (simp add: dead_quote_def quote_40_55_45_60_def dict_get_def is_number_def)

text \<open>
  C5. The filter loop keeps a member of the ladder if and only if its yes spread is
  below 30, its no spread is below 30 and its liquidity is at least 1000; what it keeps
  is the annotated copy, in ladder order. The liquidity of a member whose spreads pass
  has to be a number (the comparison raises \<open>TypeError\<close> otherwise).
\<close>

theorem filter_keeps_iff:
  assumes "\<forall>m \<in> set ladder. yes_spread m < Fin 30 \<and> no_spread m < Fin 30
             \<longrightarrow> is_number (dict_get_default m ''liquidity'' (JInt 0))"
  shows "filter_ladder evt ladder [] =
           Inr (map (annotate evt)
                  (filter (\<lambda>m. yes_spread m < Fin 30 \<and> no_spread m < Fin 30
                                \<and> 1000 \<le> liquidity_key m) ladder))"
  using filter_ladder_acc [OF assms, of evt "[]"] by simp

theorem filter_keeps_iff_witness:
  "yes_spread (quote_40_55_45_60 1000) = Fin 15 \<and> no_spread (quote_40_55_45_60 1000) = Fin 15
   \<and> filter_ladder (JStr ''KXBTC-25JAN0100'') [quote_40_55_45_60 1000, quote_40_55_45_60 999] []
       = Inr [annotate (JStr ''KXBTC-25JAN0100'') (quote_40_55_45_60 1000)]"
proof -
  have h: "\<forall>m \<in> set [quote_40_55_45_60 1000, quote_40_55_45_60 999].
             yes_spread m < Fin 30 \<and> no_spread m < Fin 30
             \<longrightarrow> is_number (dict_get_default m ''liquidity'' (JInt 0))"
    by (simp add: quote_40_55_45_60_def dict_get_default_def is_number_def)
  have k: "liquidity_key (quote_40_55_45_60 1000) = 1000"
    "liquidity_key (quote_40_55_45_60 999) = 999"
    by (simp_all add: liquidity_key_def quote_40_55_45_60_def dict_get_default_def)
  have s: "yes_spread (quote_40_55_45_60 1000) = Fin 15"
    "no_spread (quote_40_55_45_60 1000) = Fin 15"
    "yes_spread (quote_40_55_45_60 999) = Fin 15"
    "no_spread (quote_40_55_45_60 999) = Fin 15"
    by (simp_all add: yes_spread_def no_spread_def quote_40_55_45_60_def dict_get_def)
  show ?thesis
    using filter_keeps_iff [OF h, of "JStr ''KXBTC-25JAN0100''"] by (simp add: k s)
qed

subsection \<open>Request signing\<close>

text \<open>
  C3, as stated, with the stand-in library: the signature \<open>sign_request\<close> returns
  is not the one made with the maximal salt length.
\<close>

theorem sign_request_max_salt_counterexample:
  "sign_request toy_crypto ''POST'' ''/orders'' ''{}'' ''17'' ''key-id'' ''PEM''
     \<noteq> Inr (b64encode (rsa_sign toy_crypto ''PEM'' (''17'' @ ''POST'' @ ''/orders'')
                         (PSS (MGF1 SHA256) MAX_LENGTH) SHA256))"
  by (simp add: sign_request_def strip_query_def toy_crypto_def b64_char_def b64_alphabet_def)

text \<open>
  C3, amended. When the key loads, the result is the base64 text of the RSA signature
  over timestamp, method and path up to the first question mark, made with PSS padding,
  MGF1 over SHA-256, a SHA-256 digest and a salt as long as the digest
  (\<open>PSS.DIGEST_LENGTH\<close>). Neither the query string nor the body reaches the message.
\<close>

theorem sign_request_message_and_padding:
  assumes "load_pem_private_key lib pem = Some key"
  shows "sign_request lib method path body ts key_id pem =
           Inr (b64encode (rsa_sign lib key (ts @ method @ takeWhile (\<lambda>c. c \<noteq> CHR ''?'') path)
                             (PSS (MGF1 SHA256) DIGEST_LENGTH) SHA256))
       \<and> (CHR ''?'' \<notin> set p \<longrightarrow>
            sign_request lib method (p @ CHR ''?'' # q) body ts key_id pem =
            sign_request lib method p body' ts key_id pem)"
proof -
  have first: "sign_request lib method path body ts key_id pem =
           Inr (b64encode (rsa_sign lib key (ts @ method @ takeWhile (\<lambda>c. c \<noteq> CHR ''?'') path)
                             (PSS (MGF1 SHA256) DIGEST_LENGTH) SHA256))"
    using assms by (simp add: sign_request_def strip_query_def)
  have tw: "CHR ''?'' \<notin> set p \<Longrightarrow>
              strip_query (p @ CHR ''?'' # q) = strip_query p"
    unfolding strip_query_def by (induction p) simp_all
  have second: "CHR ''?'' \<notin> set p \<longrightarrow>
            sign_request lib method (p @ CHR ''?'' # q) body ts key_id pem =
            sign_request lib method p body' ts key_id pem"
    using assms by (simp add: sign_request_def tw)
  from first second show ?thesis by (rule conjI)
qed

theorem sign_request_message_and_padding_witness:
  "load_pem_private_key toy_crypto ''PEM'' = Some ''PEM''
   \<and> sign_request toy_crypto ''POST'' ''/orders?limit=5'' ''{}'' ''17'' ''key-id'' ''PEM''
       = Inr (b64encode ''digest-salt:17POST/orders'')
   \<and> sign_request toy_crypto ''POST'' ''/orders?limit=5'' ''{}'' ''17'' ''key-id'' ''PEM''
       = sign_request toy_crypto ''POST'' ''/orders'' ''other-body'' ''17'' ''key-id'' ''PEM''"
proof -
  have h: "load_pem_private_key toy_crypto ''PEM'' = Some ''PEM''"
    by (simp add: toy_crypto_def)
  have r: "rsa_sign toy_crypto ''PEM'' (''17'' @ ''POST'' @ ''/orders'')
             (PSS (MGF1 SHA256) DIGEST_LENGTH) SHA256 = ''digest-salt:17POST/orders''"
    by (simp add: toy_crypto_def)
  have t: "takeWhile (\<lambda>c. c \<noteq> CHR ''?'') ''/orders?limit=5'' = ''/orders''"
    by simp
  have q: "CHR ''?'' \<notin> set ''/orders''"
    by simp
  have e: "''/orders'' @ CHR ''?'' # ''limit=5'' = ''/orders?limit=5''"
    by simp
  note inst = sign_request_message_and_padding [OF h, of "''POST''" "''/orders?limit=5''" "''{}''" "''17''"
        "''key-id''" "''/orders''" "''limit=5''" "''other-body''"]
  have a: "sign_request toy_crypto ''POST'' ''/orders?limit=5'' ''{}'' ''17'' ''key-id'' ''PEM''
       = Inr (b64encode ''digest-salt:17POST/orders'')"
    using inst [THEN conjunct1] unfolding t r .
  have b: "sign_request toy_crypto ''POST'' ''/orders?limit=5'' ''{}'' ''17'' ''key-id'' ''PEM''
       = sign_request toy_crypto ''POST'' ''/orders'' ''other-body'' ''17'' ''key-id'' ''PEM''"
    using inst [THEN conjunct2, THEN mp, OF q] unfolding e .
  from h a b show ?thesis by (intro conjI)
qed

subsection \<open>Choosing the targets\<close>

text \<open>
  C10. On a non-empty pool, every value of \<open>choose\<close> other than
  \<open>"one_random"\<close> makes the whole pool the target list, in pool order: the function
  then does exactly what it does for \<open>"all"\<close>.
\<close>

theorem other_mode_targets_whole_pool:
  assumes "pool \<noteq> []" and "choose_arg \<noteq> ''one_random''"
  shows "choose_targets r choose_arg pool = (pool, 0)
       \<and> buy_from_pool env pool key_id pem choose_arg side_strategy use_market_orders
           = buy_loop env key_id pem side_strategy use_market_orders pool 0 [] []
       \<and> buy_from_pool env pool key_id pem choose_arg side_strategy use_market_orders
           = buy_from_pool env pool key_id pem ''all'' side_strategy use_market_orders"
  using assms by (simp add: choose_targets_def buy_from_pool_def)

theorem other_mode_targets_whole_pool_witness:
  "three_targets \<noteq> [] \<and> ''ALL'' \<noteq> ''one_random''
   \<and> choose_targets (\<lambda>n. n) ''ALL'' three_targets = (three_targets, 0)
   \<and> buy_from_pool toy_buy_env three_targets ''key-id'' ''PEM'' ''ALL'' ''yes'' False
       = buy_from_pool toy_buy_env three_targets ''key-id'' ''PEM'' ''all'' ''yes'' False"
proof -
  have h1: "three_targets \<noteq> []"
    by (simp add: three_targets_def)
  have h2: "''ALL'' \<noteq> ''one_random''"
    by simp
  from other_mode_targets_whole_pool [OF h1 h2, of "\<lambda>n. n" toy_buy_env "''key-id''" "''PEM''" "''yes''" False]
  show ?thesis using h1 h2 by blast
qed

subsection \<open>The order loop\<close>




subsection \<open>Event selection\<close>

text \<open>
  C7, at an event whose only close time does not parse. Its close time is
  \<open>float("inf")\<close>, and \<open>ct < best_close\<close> with \<open>best_close\<close> starting at
  \<open>float("inf")\<close> is false in every pass, also in the third, which the source calls
  "any event": nothing is selected. Next to an event that closed an hour ago, the
  closed event is selected, by pass 3.
\<close>

theorem pick_unparseable_close_time_selects_nothing:
  "group_by_event [event_market ''KXBTC-U'' ''soon'']
     = Inr [(JStr ''KXBTC-U'', [event_market ''KXBTC-U'' ''soon''])]
   \<and> group_close_time example_iso [event_market ''KXBTC-U'' ''soon''] = PInf
   \<and> pick_soonest_future_event example_iso example_now
        [(JStr ''KXBTC-U'', [event_market ''KXBTC-U'' ''soon''])] = (JNull, [])
   \<and> pick_soonest_future_event example_iso example_now
        [(JStr ''KXBTC-U'', [event_market ''KXBTC-U'' ''soon'']),
         (JStr ''KXBTC-C'', [event_market ''KXBTC-C'' ''2024-12-31T23:00:00Z''])]
        = (JStr ''KXBTC-C'', [event_market ''KXBTC-C'' ''2024-12-31T23:00:00Z''])"
  by (simp add: gbe_examples pick_soonest_future_event_def ct_examples Let_def
        MIN_TIME_BUFFER_MINUTES_def example_now_def py_eq_def)

text \<open>
  C4, as stated, at a listing of one open contract that has no \<open>event_ticker\<close>:
  \<open>group_by_event\<close> skips it, and the selection returns no event and no members.
\<close>

theorem pick_without_event_ticker_counterexample:
  "group_by_event [orphan_market] = Inr []
   \<and> pick_soonest_future_event example_iso example_now [] = (JNull, [])"
  by (simp add: gbe_examples pick_soonest_future_event_def)

text \<open>
  C4, amended. When the contracts of a series group without error and one of them has
  an event ticker and a close time that parses, the selection returns an event ticker
  that is truthy together with a non-empty ladder, which is the group of that event.
\<close>

theorem pick_nonempty_when_a_close_time_parses:
  assumes "group_by_event mkts = Inr by_evt"
    and "m \<in> set mkts"
    and "truthy (dict_get m ''event_ticker'')"
    and "parse_iso_utc iso_ts (dict_get_default m ''close_time'' (JStr [])) \<noteq> PInf"
  shows "\<exists>evt ladder. pick_soonest_future_event iso_ts now_ts by_evt = (evt, ladder)
           \<and> truthy evt \<and> ladder \<noteq> [] \<and> (\<exists>k. (k, ladder) \<in> set by_evt \<and> py_eq k evt)"
proof -
  from assms(1) have loop: "group_by_event_loop mkts [] = Inr by_evt"
    by (simp add: group_by_event_def)
  from group_by_event_loop_keys [OF loop]
  have keys: "\<forall>(k, g) \<in> set by_evt. truthy k \<and> g \<noteq> []" by simp
  from group_by_event_loop_member [OF loop assms(2) assms(3)]
  obtain k0 g0 where kg: "(k0, g0) \<in> set by_evt" "m \<in> set g0" by blast
  have "group_close_time iso_ts g0
          \<le> parse_iso_utc iso_ts (dict_get_default m ''close_time'' (JStr []))"
    using kg(2) by (rule group_close_time_le)
  with assms(4) have "group_close_time iso_ts g0 \<noteq> PInf"
    by (cases "parse_iso_utc iso_ts (dict_get_default m ''close_time'' (JStr []))") auto
  from pick_selects_entry [OF keys kg(1) this] show ?thesis .
qed

theorem pick_nonempty_when_a_close_time_parses_witness:
  "group_by_event [event_market ''KXBTC-S'' ''2025-01-01T00:03:00Z'',
                   event_market ''KXBTC-L'' ''2025-01-01T00:10:00Z'']
     = Inr [(JStr ''KXBTC-S'', [event_market ''KXBTC-S'' ''2025-01-01T00:03:00Z'']),
            (JStr ''KXBTC-L'', [event_market ''KXBTC-L'' ''2025-01-01T00:10:00Z''])]
   \<and> truthy (dict_get (event_market ''KXBTC-S'' ''2025-01-01T00:03:00Z'') ''event_ticker'')
   \<and> parse_iso_utc example_iso
        (dict_get_default (event_market ''KXBTC-S'' ''2025-01-01T00:03:00Z'') ''close_time'' (JStr []))
        \<noteq> PInf
   \<and> (\<exists>evt ladder.
         pick_soonest_future_event example_iso example_now
           [(JStr ''KXBTC-S'', [event_market ''KXBTC-S'' ''2025-01-01T00:03:00Z'']),
            (JStr ''KXBTC-L'', [event_market ''KXBTC-L'' ''2025-01-01T00:10:00Z''])] = (evt, ladder)
         \<and> truthy evt \<and> ladder \<noteq> [])"
proof -
  have h1: "group_by_event [event_market ''KXBTC-S'' ''2025-01-01T00:03:00Z'',
                   event_market ''KXBTC-L'' ''2025-01-01T00:10:00Z'']
     = Inr [(JStr ''KXBTC-S'', [event_market ''KXBTC-S'' ''2025-01-01T00:03:00Z'']),
            (JStr ''KXBTC-L'', [event_market ''KXBTC-L'' ''2025-01-01T00:10:00Z''])]"
    by (rule gbe_examples)
  have h2: "event_market ''KXBTC-S'' ''2025-01-01T00:03:00Z''
              \<in> set [event_market ''KXBTC-S'' ''2025-01-01T00:03:00Z'',
                      event_market ''KXBTC-L'' ''2025-01-01T00:10:00Z'']"
    by simp
  have h3: "truthy (dict_get (event_market ''KXBTC-S'' ''2025-01-01T00:03:00Z'') ''event_ticker'')"
    by (simp add: event_market_def dict_get_def)
  have h4: "parse_iso_utc example_iso
        (dict_get_default (event_market ''KXBTC-S'' ''2025-01-01T00:03:00Z'') ''close_time'' (JStr []))
        \<noteq> PInf"
    by (simp add: event_market_def dict_get_default_def parse_iso_utc_def replace_Z_def example_iso_def)
  from pick_nonempty_when_a_close_time_parses [OF h1 h2 h3 h4, of example_now]
  have "\<exists>evt ladder.
         pick_soonest_future_event example_iso example_now
           [(JStr ''KXBTC-S'', [event_market ''KXBTC-S'' ''2025-01-01T00:03:00Z'']),
            (JStr ''KXBTC-L'', [event_market ''KXBTC-L'' ''2025-01-01T00:10:00Z''])] = (evt, ladder)
         \<and> truthy evt \<and> ladder \<noteq> []"
    by blast
  with h1 h3 h4 show ?thesis by blast
qed

subsection \<open>A listing that fails\<close>

text \<open>
  C1, as stated, with the first series answering 503: \<open>build_pool\<close> ends with that
  error, although the remaining series alone give a pool of one contract.
\<close>

theorem build_pool_listing_error_counterexample:
  "build_pool toy_pool_env = Some (Inl (HTTPError 503 ''Service Unavailable''))
   \<and> build_pool_loop toy_pool_env (tl SERIES) []
       = Some (Inr [annotate (JStr ''KXETH-L'') (event_market ''KXETH-L'' ''2025-01-01T00:10:00Z'')])"
proof -
  have a: "build_pool toy_pool_env = Some (Inl (HTTPError 503 ''Service Unavailable''))"
    by (simp add: build_pool_def SERIES_def toy_pool_env_def toy_fetch)
  have t: "tl SERIES = [''KXETH'', ''KXBTCD'', ''KXBTC'', ''KXXRPD'', ''KXXRP'']"
    by (simp add: SERIES_def)
  show ?thesis
    unfolding t by (rule conjI [OF a toy_rest])
qed

text \<open>
  C1, amended. When the listing of a series raises, \<open>build_pool\<close> raises the same
  error at that series: no later series is fetched, and wherever the failing series
  stands in the list, no pool is returned.
\<close>

theorem listing_error_aborts_build_pool:
  assumes "get_open_markets_for_series (listing env) series = Some (Inl e)"
  shows "build_pool_loop env (series # rest) pool = Some (Inl e)
       \<and> (\<forall>pool'. build_pool_loop env (before @ series # rest) pool \<noteq> Some (Inr pool'))"
  using assms build_pool_loop_after_error [OF assms] by simp

theorem listing_error_aborts_build_pool_witness:
  "get_open_markets_for_series (listing toy_pool_env) ''KXETHD''
     = Some (Inl (HTTPError 503 ''Service Unavailable''))
   \<and> build_pool_loop toy_pool_env (''KXETHD'' # [''KXETH'']) []
       = Some (Inl (HTTPError 503 ''Service Unavailable''))
   \<and> build_pool_loop toy_pool_env ([''KXETH''] @ ''KXETHD'' # [''KXETH'']) []
         \<noteq> Some (Inr [annotate (JStr ''KXETH-L'') (event_market ''KXETH-L'' ''2025-01-01T00:10:00Z'')])"
proof -
  have h: "get_open_markets_for_series (listing toy_pool_env) ''KXETHD''
     = Some (Inl (HTTPError 503 ''Service Unavailable''))"
    by (simp add: toy_pool_env_def toy_fetch)
  from listing_error_aborts_build_pool [OF h, of "[''KXETH'']" "[]" "[''KXETH'']"] h
  show ?thesis by blast
qed

end
